theory Spec2Isabelle
  imports Complex_Main "HOL-Library.Sublist"
begin

text \<open>
  A model of the front end of the ADGM corporate agent: the document uploader with its
  simulated analysis, the checklist table, the filter of the compliance rule table and the
  reindexing of the knowledge sources, followed by the properties they satisfy. Every
  component is a React function component; its \<^verbatim>\<open>useState\<close> cells become the fields of a
  record, an event handler becomes a function on that record, and a \<^verbatim>\<open>setTimeout\<close>
  callback becomes a second function applied to the state found when the timer fires.
\<close>

section \<open>Strings\<close>

text \<open>
  The TypeScript sources compare file names and rule texts after \<^verbatim>\<open>toLowerCase()\<close> and
  test them with \<^verbatim>\<open>endsWith\<close> and \<^verbatim>\<open>includes\<close>. Strings are modelled as HOL strings
  (lists of 8-bit characters); \<open>toLowerCase\<close> folds the letters \<open>A\<close> to \<open>Z\<close> and leaves
  every other character alone, which is what the JavaScript function does on ASCII text.
\<close>

definition upperLetters :: string where
  "upperLetters = ''ABCDEFGHIJKLMNOPQRSTUVWXYZ''"

definition lowerLetters :: string where
  "lowerLetters = ''abcdefghijklmnopqrstuvwxyz''"

definition toLowerChar :: "char \<Rightarrow> char" where
  "toLowerChar c = (case map_of (zip upperLetters lowerLetters) c of Some d \<Rightarrow> d | None \<Rightarrow> c)"

definition toLowerCase :: "string \<Rightarrow> string" where
  "toLowerCase s = map toLowerChar s"

text \<open>\<^verbatim>\<open>s.endsWith(t)\<close>: \<open>t\<close> is no longer than \<open>s\<close> and the last \<open>length t\<close> characters of
  \<open>s\<close> are \<open>t\<close>.\<close>

definition endsWith :: "string \<Rightarrow> string \<Rightarrow> bool" where
  "endsWith s t = (length t \<le> length s \<and> drop (length s - length t) s = t)"

text \<open>\<^verbatim>\<open>s.includes(t)\<close>: \<open>t\<close> occurs in \<open>s\<close> at some position; the empty string occurs
  in every string.\<close>

fun includes_str :: "string \<Rightarrow> string \<Rightarrow> bool" where
  "includes_str [] t = (t = [])"
| "includes_str (c # cs) t = (prefix t (c # cs) \<or> includes_str cs t)"

section \<open>DocumentUploader.tsx\<close>

text \<open>A browser \<^verbatim>\<open>File\<close>, as far as the component reads it: its name and its size.\<close>

record File =
  name :: string
  size_bytes :: nat

datatype Severity = High | Medium | Low

record Issue =
  document :: string
  issue_section :: string
  issue :: string
  severity :: Severity
  suggestion :: string

record DocumentAnalysis =
  process :: string
  documents_uploaded :: nat
  required_documents :: nat
  missing_documents :: "string list"
  issues_found :: "Issue list"

text \<open>
  The component state: the three \<^verbatim>\<open>useState\<close> cells \<open>files\<close>, \<open>isAnalyzing\<close> and
  \<open>analysis\<close>, together with two logs of the component's effects on its surroundings: the
  messages shown with \<^verbatim>\<open>alert\<close> and the reports handed to the \<^verbatim>\<open>onAnalysisComplete\<close>
  callback, both in the order of the calls.
\<close>

record DocumentUploader =
  files :: "File list"
  isAnalyzing :: bool
  analysis :: "DocumentAnalysis option"
  alerts :: "string list"
  completed :: "DocumentAnalysis list"

text \<open>
  \<^verbatim>\<open>handleFileUpload\<close>. The argument is \<^verbatim>\<open>event.target.files\<close>, which is \<^verbatim>\<open>null\<close> or a
  file list; \<^verbatim>\<open>|| []\<close> turns \<^verbatim>\<open>null\<close> into the empty list.
\<close>

definition handleFileUpload :: "File list option \<Rightarrow> DocumentUploader \<Rightarrow> DocumentUploader" where
  "handleFileUpload target_files s =
     (let uploadedFiles = (case target_files of None \<Rightarrow> [] | Some fs \<Rightarrow> fs);
          docxFiles = filter (\<lambda>file. endsWith (toLowerCase (name file)) ''.docx'') uploadedFiles
      in if length docxFiles \<noteq> length uploadedFiles
         then s\<lparr>alerts := alerts s @ [''Please upload only .docx files'']\<rparr>
         else s\<lparr>files := docxFiles\<rparr>)"

text \<open>The report built inside the timer callback of \<^verbatim>\<open>analyzeDocuments\<close>; \<open>fs\<close> is the
  \<open>files\<close> value the callback closed over.\<close>

definition mockAnalysis :: "File list \<Rightarrow> DocumentAnalysis" where
  "mockAnalysis fs =
     \<lparr>process = ''Company Incorporation'',
      documents_uploaded = length fs,
      required_documents = 5,
      missing_documents =
        (if length fs < 5 then [''Register of Members and Directors''] else []),
      issues_found =
        [\<lparr>document = ''Articles of Association'',
          issue_section = ''Clause 3.1'',
          issue = ''Jurisdiction clause does not specify ADGM'',
          severity = High,
          suggestion =
            ''Update jurisdiction to ADGM Courts per ADGM Companies Regulations 2020, Art. 6''\<rparr>,
         \<lparr>document = ''Memorandum of Association'',
          issue_section = ''Section 2.3'',
          issue = ''Missing UBO declaration reference'',
          severity = Medium,
          suggestion =
            ''Include reference to UBO Declaration Form as required by ADGM AML regulations''\<rparr>]\<rparr>"

text \<open>
  \<^verbatim>\<open>analyzeDocuments\<close> returns at once when \<open>files\<close> is empty. Otherwise it sets
  \<open>isAnalyzing\<close> and schedules a timer callback; the second component of the result is the
  scheduled callback, represented by the \<open>files\<close> value it captured (\<open>None\<close>: nothing was
  scheduled).
\<close>

definition analyzeDocuments :: "DocumentUploader \<Rightarrow> DocumentUploader \<times> File list option" where
  "analyzeDocuments s =
     (if length (files s) = 0 then (s, None)
      else (s\<lparr>isAnalyzing := True\<rparr>, Some (files s)))"

text \<open>The timer callback, run on the state it finds when the timer fires: it stores the
  report, hands it to \<^verbatim>\<open>onAnalysisComplete\<close> and clears \<open>isAnalyzing\<close>.\<close>

definition timeoutCallback :: "File list \<Rightarrow> DocumentUploader \<Rightarrow> DocumentUploader" where
  "timeoutCallback fs s =
     (let mock = mockAnalysis fs
      in s\<lparr>analysis := Some mock, completed := completed s @ [mock], isAnalyzing := False\<rparr>)"

text \<open>One whole analysis: the click on the button followed by the firing of the timer it
  scheduled, if any, with no other event in between.\<close>

definition runAnalysis :: "DocumentUploader \<Rightarrow> DocumentUploader" where
  "runAnalysis s =
     (case analyzeDocuments s of
        (s', None) \<Rightarrow> s'
      | (s', Some fs) \<Rightarrow> timeoutCallback fs s')"

text \<open>
  The report as the object it is at run time: the properties of the object literal built in
  the timer callback, which are the properties the \<^verbatim>\<open>DocumentAnalysis\<close> interface declares,
  in their order. Counts are JavaScript numbers.
\<close>

datatype JsValue =
  JsString string
| JsNumber rat
| JsArray "JsValue list"
| JsObject "(string \<times> JsValue) list"

definition severityLabel :: "Severity \<Rightarrow> string" where
  "severityLabel sev = (case sev of High \<Rightarrow> ''High'' | Medium \<Rightarrow> ''Medium'' | Low \<Rightarrow> ''Low'')"

definition issueObject :: "Issue \<Rightarrow> JsValue" where
  "issueObject i =
     JsObject
       [(''document'', JsString (document i)),
        (''section'', JsString (issue_section i)),
        (''issue'', JsString (issue i)),
        (''severity'', JsString (severityLabel (severity i))),
        (''suggestion'', JsString (suggestion i))]"

definition analysisObject :: "DocumentAnalysis \<Rightarrow> (string \<times> JsValue) list" where
  "analysisObject r =
     [(''process'', JsString (process r)),
      (''documents_uploaded'', JsNumber (of_nat (documents_uploaded r))),
      (''required_documents'', JsNumber (of_nat (required_documents r))),
      (''missing_documents'', JsArray (map JsString (missing_documents r))),
      (''issues_found'', JsArray (map issueObject (issues_found r)))]"

text \<open>"Carries a confidence score that lies in [0,1], rounded to two decimals", in the
  claim's words: the object has a property \<open>confidence_score\<close> (the spelling of the
  repository's documentation) or \<open>confidenceScore\<close> (the spelling of the specification)
  whose value is a number between 0 and 1 that rounding to two decimals leaves as it is.\<close>

definition isConfidenceScore :: "JsValue \<Rightarrow> bool" where
  "isConfidenceScore v =
     (case v of
        JsNumber x \<Rightarrow> 0 \<le> x \<and> x \<le> 1 \<and> of_int (round (x * 100)) / 100 = x
      | _ \<Rightarrow> False)"

definition carriesConfidenceScore :: "(string \<times> JsValue) list \<Rightarrow> bool" where
  "carriesConfidenceScore obj =
     (case map_of obj ''confidence_score'' of
        Some v \<Rightarrow> isConfidenceScore v
      | None \<Rightarrow>
          (case map_of obj ''confidenceScore'' of
             Some v \<Rightarrow> isConfidenceScore v
           | None \<Rightarrow> False))"

section \<open>ADGMChecklists.tsx\<close>

record ChecklistItem =
  item_name :: string
  required :: bool
  item_description :: string

record ProcessChecklist =
  checklist_process :: string
  checklist_description :: string
  documents :: "ChecklistItem list"

definition ADGM_CHECKLISTS :: "ProcessChecklist list" where
  "ADGM_CHECKLISTS =
    [\<lparr>checklist_process = ''Company Incorporation'',
      checklist_description = ''Required documents for incorporating a company in ADGM'',
      documents =
        [\<lparr>item_name = ''Articles of Association (AoA)'', required = True,
          item_description = ''Defines the company's internal rules and regulations''\<rparr>,
         \<lparr>item_name = ''Memorandum of Association (MoA)'', required = True,
          item_description = ''Outlines the company's constitution and scope of activities''\<rparr>,
         \<lparr>item_name = ''Incorporation Application Form'', required = True,
          item_description = ''Official ADGM form for company registration''\<rparr>,
         \<lparr>item_name = ''UBO Declaration Form'', required = True,
          item_description = ''Ultimate Beneficial Ownership declaration as per AML requirements''\<rparr>,
         \<lparr>item_name = ''Register of Members and Directors'', required = True,
          item_description = ''Initial register of company members and directors''\<rparr>]\<rparr>,
     \<lparr>checklist_process = ''Financial Services Licensing'',
      checklist_description = ''Documents required for FSRA licensing in ADGM'',
      documents =
        [\<lparr>item_name = ''FSRA License Application'', required = True,
          item_description = ''Application for Financial Services Regulatory Authority license''\<rparr>,
         \<lparr>item_name = ''Business Plan'', required = True,
          item_description = ''Detailed business plan including financial projections''\<rparr>,
         \<lparr>item_name = ''Compliance Manual'', required = True,
          item_description = ''Internal compliance policies and procedures''\<rparr>,
         \<lparr>item_name = ''Risk Management Framework'', required = True,
          item_description = ''Risk assessment and management policies''\<rparr>,
         \<lparr>item_name = ''Key Personnel CVs'', required = True,
          item_description = ''Curriculum vitae of key management personnel''\<rparr>]\<rparr>,
     \<lparr>checklist_process = ''Employment Visa Application'',
      checklist_description = ''Documents for ADGM employment visa processing'',
      documents =
        [\<lparr>item_name = ''Employment Contract'', required = True,
          item_description = ''ADGM-compliant employment agreement''\<rparr>,
         \<lparr>item_name = ''Educational Certificates'', required = True,
          item_description = ''Attested educational qualifications''\<rparr>,
         \<lparr>item_name = ''Experience Certificates'', required = True,
          item_description = ''Previous employment experience documentation''\<rparr>,
         \<lparr>item_name = ''Medical Certificate'', required = True,
          item_description = ''Health clearance from approved medical center''\<rparr>,
         \<lparr>item_name = ''Passport Copy'', required = True,
          item_description = ''Valid passport with minimum 6 months validity''\<rparr>]\<rparr>]"

text \<open>\<^verbatim>\<open>displayChecklists\<close>: the checklists of the selected process, or all of them when the
  property is undefined or the empty string (both falsy).\<close>

definition displayChecklists :: "string option \<Rightarrow> ProcessChecklist list" where
  "displayChecklists selectedProcess =
     (case selectedProcess of
        None \<Rightarrow> ADGM_CHECKLISTS
      | Some p \<Rightarrow>
          if p = [] then ADGM_CHECKLISTS
          else filter (\<lambda>checklist. checklist_process checklist = p) ADGM_CHECKLISTS)"

text \<open>The required checklist of a process, read off the table: the names of the required
  documents of the checklists shown for that process, in table order.\<close>

definition requiredChecklist :: "string \<Rightarrow> string list" where
  "requiredChecklist p =
     concat (map (\<lambda>checklist. map item_name (filter required (documents checklist)))
                 (filter (\<lambda>checklist. checklist_process checklist = p) ADGM_CHECKLISTS))"

text \<open>The checklist difference in the specification's words: the required checklist of the
  process without the uploaded document types, in checklist order.\<close>

definition checklistMinusUploaded :: "string \<Rightarrow> string set \<Rightarrow> string list" where
  "checklistMinusUploaded p uploadedTypes =
     filter (\<lambda>t. t \<notin> uploadedTypes) (requiredChecklist p)"

text \<open>
  Modelled from the spec: the label dictionary that infers the type label of an uploaded
  document from its file name is configuration outside the repository; the component itself
  never looks at a document's type. The results below hold for every labelling
  \<open>typeOf :: File \<Rightarrow> string\<close>; where a concrete one is needed, \<open>declaredType\<close> labels a
  file by its name without the \<open>.docx\<close> extension.
\<close>

definition declaredType :: "File \<Rightarrow> string" where
  "declaredType f =
     (if endsWith (toLowerCase (name f)) ''.docx''
      then take (length (name f) - 5) (name f) else name f)"

section \<open>ComplianceAnalyzer.tsx\<close>

record ComplianceRule =
  rule_id :: string
  category :: string
  rule :: string
  description :: string
  rule_severity :: Severity
  reference :: string

definition ADGM_COMPLIANCE_RULES :: "ComplianceRule list" where
  "ADGM_COMPLIANCE_RULES =
    [\<lparr>rule_id = ''COMP-001'', category = ''Jurisdiction'',
      rule = ''ADGM Court Jurisdiction'',
      description =
        ''All legal documents must specify ADGM Courts as the governing jurisdiction'',
      rule_severity = High,
      reference = ''ADGM Companies Regulations 2020, Article 6''\<rparr>,
     \<lparr>rule_id = ''COMP-002'', category = ''Corporate Governance'',
      rule = ''Director Minimum Requirements'',
      description = ''At least one director must be a natural person'',
      rule_severity = High,
      reference = ''ADGM Companies Regulations 2020, Article 155''\<rparr>,
     \<lparr>rule_id = ''COMP-003'', category = ''AML/CFT'',
      rule = ''UBO Declaration'',
      description = ''Ultimate Beneficial Ownership must be declared for all entities'',
      rule_severity = High,
      reference = ''ADGM AML Rules 2019, Rule 3.2''\<rparr>,
     \<lparr>rule_id = ''COMP-004'', category = ''Share Capital'',
      rule = ''Minimum Share Capital'',
      description =
        ''Companies must maintain minimum authorized share capital as per license type'',
      rule_severity = Medium,
      reference = ''ADGM Companies Regulations 2020, Article 64''\<rparr>,
     \<lparr>rule_id = ''COMP-005'', category = ''Registered Office'',
      rule = ''ADGM Registered Address'',
      description = ''Companies must maintain a registered office address within ADGM'',
      rule_severity = High,
      reference = ''ADGM Companies Regulations 2020, Article 29''\<rparr>,
     \<lparr>rule_id = ''COMP-006'', category = ''Financial Services'',
      rule = ''FSRA Authorization'',
      description = ''Financial services activities require FSRA authorization'',
      rule_severity = High,
      reference = ''ADGM FSMR 2015, Article 9''\<rparr>]"

text \<open>\<^verbatim>\<open>filteredRules\<close>, as a function of the two state cells it reads.\<close>

definition filteredRules :: "string \<Rightarrow> string \<Rightarrow> ComplianceRule list" where
  "filteredRules selectedCategory searchTerm =
     filter (\<lambda>r.
        let matchesCategory = (selectedCategory = ''All'' \<or> category r = selectedCategory);
            matchesSearch =
              (includes_str (toLowerCase (rule r)) (toLowerCase searchTerm) \<or>
               includes_str (toLowerCase (description r)) (toLowerCase searchTerm))
        in matchesCategory \<and> matchesSearch)
       ADGM_COMPLIANCE_RULES"

text \<open>"Contains the search term, ignoring case", in the claim's words: after case folding,
  the term occurs somewhere in the text.\<close>

definition containsIgnoringCase :: "string \<Rightarrow> string \<Rightarrow> bool" where
  "containsIgnoringCase text term =
     (\<exists>before after. toLowerCase text = before @ toLowerCase term @ after)"

text \<open>"Ends in \<open>.docx\<close>, ignoring case", in the claim's words: the name is some stem followed
  by an extension that is \<open>.docx\<close> up to the case of its letters.\<close>

definition endsInDocx :: "string \<Rightarrow> bool" where
  "endsInDocx file_name =
     (\<exists>stem ext. file_name = stem @ ext \<and> toLowerCase ext = ''.docx'')"

section \<open>RAGSystem.tsx\<close>

datatype SourceType = Regulation | Guideline | Form | Template

datatype SourceStatus = Active | Indexed | Error

record KnowledgeSource =
  source_id :: string
  title :: string
  source_type :: SourceType
  url :: string
  lastUpdated :: string
  source_description :: string
  status :: SourceStatus

definition ADGM_KNOWLEDGE_SOURCES :: "KnowledgeSource list" where
  "ADGM_KNOWLEDGE_SOURCES =
    [\<lparr>source_id = ''adgm-companies-reg-2020'',
      title = ''ADGM Companies Regulations 2020'',
      source_type = Regulation,
      url = ''https://www.adgm.com/doing-business/legal-framework/companies-regulations'',
      lastUpdated = ''2024-01-15'',
      source_description =
        ''Comprehensive regulations governing company formation and operations in ADGM'',
      status = Indexed\<rparr>,
     \<lparr>source_id = ''adgm-aml-rules-2019'',
      title = ''ADGM AML Rules 2019'',
      source_type = Regulation,
      url = ''https://www.adgm.com/doing-business/legal-framework/aml-rules'',
      lastUpdated = ''2023-12-10'',
      source_description = ''Anti-Money Laundering and Counter-Terrorist Financing rules'',
      status = Indexed\<rparr>,
     \<lparr>source_id = ''fsra-licensing-guide'',
      title = ''FSRA Licensing Guidelines'',
      source_type = Guideline,
      url = ''https://www.adgm.com/fsra/licensing'',
      lastUpdated = ''2024-02-01'',
      source_description =
        ''Guidelines for obtaining Financial Services Regulatory Authority licenses'',
      status = Indexed\<rparr>,
     \<lparr>source_id = ''incorporation-forms'',
      title = ''Company Incorporation Forms'',
      source_type = Form,
      url = ''https://www.adgm.com/doing-business/company-incorporation/forms'',
      lastUpdated = ''2024-01-20'',
      source_description = ''Official forms required for company incorporation in ADGM'',
      status = Active\<rparr>,
     \<lparr>source_id = ''employment-regulations'',
      title = ''ADGM Employment Regulations'',
      source_type = Regulation,
      url = ''https://www.adgm.com/doing-business/legal-framework/employment-regulations'',
      lastUpdated = ''2023-11-30'',
      source_description = ''Regulations governing employment relationships in ADGM'',
      status = Indexed\<rparr>]"

text \<open>The component state: the four \<^verbatim>\<open>useState\<close> cells.\<close>

record RAGSystem =
  sources :: "KnowledgeSource list"
  searchQuery :: string
  isIndexing :: bool
  selectedType :: string

definition initialRAGSystem :: RAGSystem where
  "initialRAGSystem =
     \<lparr>sources = ADGM_KNOWLEDGE_SOURCES, searchQuery = [], isIndexing = False,
      selectedType = ''all''\<rparr>"

text \<open>\<^verbatim>\<open>iso.split('T')[0]\<close>: the part of the string before its first \<open>T\<close>, the whole
  string when it has none.\<close>

definition splitT0 :: "string \<Rightarrow> string" where
  "splitT0 stamp = takeWhile (\<lambda>c. c \<noteq> CHR ''T'') stamp"

text \<open>
  \<^verbatim>\<open>handleReindex\<close> sets \<open>isIndexing\<close> and schedules a timer callback. The callback maps
  the source list it finds when the timer fires; \<^verbatim>\<open>new Date().toISOString()\<close> is evaluated
  once for every source, so the clock is a function from the position of the source to the
  ISO time stamp read there.
\<close>

definition handleReindex :: "RAGSystem \<Rightarrow> RAGSystem" where
  "handleReindex s = s\<lparr>isIndexing := True\<rparr>"

definition reindexCallback :: "(nat \<Rightarrow> string) \<Rightarrow> RAGSystem \<Rightarrow> RAGSystem" where
  "reindexCallback clock s =
     s\<lparr>sources :=
         map (\<lambda>(i, source). source\<lparr>status := Indexed, lastUpdated := splitT0 (clock i)\<rparr>)
             (enumerate 0 (sources s)),
       isIndexing := False\<rparr>"

text \<open>One whole reindexing: the click followed by the firing of its timer.\<close>

definition runReindex :: "(nat \<Rightarrow> string) \<Rightarrow> RAGSystem \<Rightarrow> RAGSystem" where
  "runReindex clock s = reindexCallback clock (handleReindex s)"

text \<open>The fields of a knowledge source other than \<open>status\<close> and \<open>lastUpdated\<close>.\<close>

definition identityFields ::
  "KnowledgeSource \<Rightarrow> string \<times> string \<times> SourceType \<times> string \<times> string" where
  "identityFields source =
     (source_id source, title source, source_type source, url source,
      source_description source)"

section \<open>Confidence scorer\<close>

text \<open>
  Modelled from the spec: the confidence scorer is missing from the sources (the
  \<^verbatim>\<open>DocumentAnalysis\<close> interface of the front end declares no confidence field and nothing
  computes one). The specification describes it as a weighted combination of three terms,
  clamped to the unit interval and rounded to two decimals. The weights and the cap are
  configuration, so they are parameters here.
\<close>

record ScorerConfig =
  checklistWeight :: rat
  severityWeight :: rat
  coverageWeight :: rat
  capPerDocument :: rat

text \<open>Modelled from the spec: what the scorer reads off a report, namely the upload and
  requirement counts, the number of issues of each severity, and the numbers of evaluated
  and applicable rules.\<close>

record ScoreInput =
  documentsUploaded :: nat
  requiredDocuments :: nat
  highIssues :: nat
  mediumIssues :: nat
  lowIssues :: nat
  evaluatedRules :: nat
  applicableRules :: nat

text \<open>Modelled from the spec: a ratio of two counts. The specification does not say what
  a ratio with denominator zero is; it is taken as 0 here.\<close>

definition ratio :: "nat \<Rightarrow> nat \<Rightarrow> rat" where
  "ratio n d = (if d = 0 then 0 else of_nat n / of_nat d)"

text \<open>Modelled from the spec: the weighted issue count, High weight 3, Medium 2, Low 1.\<close>

definition weightedIssueCount :: "ScoreInput \<Rightarrow> nat" where
  "weightedIssueCount inp = 3 * highIssues inp + 2 * mediumIssues inp + lowIssues inp"

text \<open>Modelled from the spec: the weighted issue count normalised against a cap that
  scales with the batch size; the result is at most 1, and 0 when the cap is not
  positive.\<close>

definition severityLoad :: "ScorerConfig \<Rightarrow> ScoreInput \<Rightarrow> rat" where
  "severityLoad cfg inp =
     (let cap = capPerDocument cfg * of_nat (documentsUploaded inp)
      in if cap \<le> 0 then 0 else min 1 (of_nat (weightedIssueCount inp) / cap))"

text \<open>Modelled from the spec: the weighted combination of checklist completeness, inverse
  severity load and rule coverage.\<close>

definition rawScore :: "ScorerConfig \<Rightarrow> ScoreInput \<Rightarrow> rat" where
  "rawScore cfg inp =
     checklistWeight cfg * ratio (documentsUploaded inp) (requiredDocuments inp)
     + severityWeight cfg * (1 - severityLoad cfg inp)
     + coverageWeight cfg * ratio (evaluatedRules inp) (applicableRules inp)"

text \<open>Modelled from the spec: clamping to the unit interval.\<close>

definition clamp01 :: "rat \<Rightarrow> rat" where
  "clamp01 x = max 0 (min 1 x)"

text \<open>Modelled from the spec: rounding to two decimals, halves upwards.\<close>

definition roundTwoDecimals :: "rat \<Rightarrow> rat" where
  "roundTwoDecimals x = of_int (round (x * 100)) / 100"

text \<open>Modelled from the spec: the reported score, clamped and then rounded.\<close>

definition score :: "ScorerConfig \<Rightarrow> ScoreInput \<Rightarrow> rat" where
  "score cfg inp = roundTwoDecimals (clamp01 (rawScore cfg inp))"

text \<open>An instance of the configuration and of the scorer's input, for concrete
  evaluations.\<close>

definition exampleConfig :: ScorerConfig where
  "exampleConfig =
     \<lparr>checklistWeight = 2 / 5, severityWeight = 2 / 5, coverageWeight = 1 / 5,
      capPerDocument = 6\<rparr>"

definition exampleInput :: "nat \<Rightarrow> ScoreInput" where
  "exampleInput h =
     \<lparr>documentsUploaded = 4, requiredDocuments = 5, highIssues = h, mediumIssues = 1,
      lowIssues = 0, evaluatedRules = 6, applicableRules = 6\<rparr>"

section \<open>Example inputs\<close>

text \<open>A file with the given stem and the extension \<open>.docx\<close>.\<close>

definition docx :: "string \<Rightarrow> File" where
  "docx stem = \<lparr>name = stem @ ''.docx'', size_bytes = 20480\<rparr>"

text \<open>The component right after the given files were accepted: nothing analysed yet.\<close>

definition uploaderWith :: "File list \<Rightarrow> DocumentUploader" where
  "uploaderWith fs =
     \<lparr>files = fs, isAnalyzing = False, analysis = None, alerts = [], completed = []\<rparr>"

text \<open>The first four documents of the Company Incorporation checklist.\<close>

definition fourIncorporationFiles :: "File list" where
  "fourIncorporationFiles =
     [docx ''Articles of Association (AoA)'', docx ''Memorandum of Association (MoA)'',
      docx ''Incorporation Application Form'', docx ''UBO Declaration Form'']"

text \<open>All five documents of the Company Incorporation checklist.\<close>

definition fiveIncorporationFiles :: "File list" where
  "fiveIncorporationFiles =
     fourIncorporationFiles @ [docx ''Register of Members and Directors'']"

section \<open>Auxiliary facts\<close>

subsection \<open>Strings\<close>

lemmas lower_simps = toLowerCase_def toLowerChar_def upperLetters_def lowerLetters_def

lemma toLowerCase_append: "toLowerCase (a @ b) = toLowerCase a @ toLowerCase b"
  by (simp add: toLowerCase_def)

lemma toLowerCase_drop: "toLowerCase (drop n s) = drop n (toLowerCase s)"
  by (simp add: toLowerCase_def drop_map)

lemma endsWith_iff: "endsWith s t \<longleftrightarrow> (\<exists>p. s = p @ t)"
proof
  assume "endsWith s t"
  then have "drop (length s - length t) s = t"
    by (simp add: endsWith_def)
  then have "s = take (length s - length t) s @ t"
    by (metis append_take_drop_id)
  then show "\<exists>p. s = p @ t" ..
next
  assume "\<exists>p. s = p @ t"
  then obtain p where "s = p @ t" ..
  then show "endsWith s t"
    by (simp add: endsWith_def)
qed

text \<open>The test of \<open>handleFileUpload\<close> is the claim's "ends in \<open>.docx\<close>, ignoring case".\<close>

lemma endsWith_lower_docx: "endsWith (toLowerCase n) ''.docx'' \<longleftrightarrow> endsInDocx n"
proof
  assume "endsWith (toLowerCase n) ''.docx''"
  then obtain p where p: "toLowerCase n = p @ ''.docx''"
    unfolding endsWith_iff ..
  have "n = take (length p) n @ drop (length p) n"
    by simp
  moreover have "toLowerCase (drop (length p) n) = ''.docx''"
    using p by (simp add: toLowerCase_drop)
  ultimately show "endsInDocx n"
    unfolding endsInDocx_def by blast
next
  assume "endsInDocx n"
  then obtain stem ext where "n = stem @ ext" "toLowerCase ext = ''.docx''"
    unfolding endsInDocx_def by blast
  then have "toLowerCase n = toLowerCase stem @ ''.docx''"
    by (simp add: toLowerCase_append)
  then show "endsWith (toLowerCase n) ''.docx''"
    unfolding endsWith_iff by blast
qed

text \<open>\<open>includes_str\<close> finds exactly the contiguous occurrences.\<close>

lemma includes_str_iff: "includes_str s t \<longleftrightarrow> (\<exists>p q. s = p @ t @ q)"
proof (induction s)
  case Nil
  then show ?case by auto
next
  case (Cons c cs)
  show ?case
  proof
    assume "includes_str (c # cs) t"
    then consider "prefix t (c # cs)" | "includes_str cs t" by auto
    then show "\<exists>p q. c # cs = p @ t @ q"
    proof cases
      case 1
      then obtain q where "c # cs = t @ q" by (auto simp: prefix_def)
      then have "c # cs = [] @ t @ q" by simp
      then show ?thesis by blast
    next
      case 2
      with Cons.IH obtain p q where "cs = p @ t @ q" by blast
      then have "c # cs = (c # p) @ t @ q" by simp
      then show ?thesis by blast
    qed
  next
    assume "\<exists>p q. c # cs = p @ t @ q"
    then obtain p q where pq: "c # cs = p @ t @ q" by blast
    show "includes_str (c # cs) t"
    proof (cases p)
      case Nil
      with pq have "prefix t (c # cs)" by (simp add: prefix_def)
      then show ?thesis by simp
    next
      case (Cons a p')
      with pq have "cs = p' @ t @ q" by simp
      with Cons.IH have "includes_str cs t" by blast
      then show ?thesis by simp
    qed
  qed
qed

lemma includes_lower_iff:
  "includes_str (toLowerCase x) (toLowerCase t) \<longleftrightarrow> containsIgnoringCase x t"
  by (simp add: includes_str_iff containsIgnoringCase_def)

lemma filter_docx_all:
  "length (filter P xs) = length xs \<longleftrightarrow> (\<forall>x\<in>set xs. P x)"
  by (metis filter_True filter_id_conv length_filter_less less_irrefl)

lemma filter_eq_singleton_iff:
  assumes "distinct xs"
  shows "filter P xs = [x] \<longleftrightarrow> {y \<in> set xs. P y} = {x}"
proof
  assume "filter P xs = [x]"
  then have "set (filter P xs) = {x}" by simp
  then show "{y \<in> set xs. P y} = {x}" by simp
next
  assume s: "{y \<in> set xs. P y} = {x}"
  then have st: "set (filter P xs) = {x}" by simp
  have d: "distinct (filter P xs)" using assms by simp
  have "length (filter P xs) = card {x}"
    using distinct_card [OF d] st by simp
  then have "length (filter P xs) = Suc 0" by simp
  then obtain y where y: "filter P xs = [y]"
    by (auto simp: length_Suc_conv)
  with st show "filter P xs = [x]" by simp
qed

subsection \<open>The analysis run\<close>

lemma runAnalysis_nonempty:
  "files s \<noteq> [] \<Longrightarrow>
     runAnalysis s =
       s\<lparr>isAnalyzing := False, analysis := Some (mockAnalysis (files s)),
         completed := completed s @ [mockAnalysis (files s)]\<rparr>"
  by (simp add: runAnalysis_def analyzeDocuments_def timeoutCallback_def Let_def)



subsection \<open>The report object\<close>

lemma keys_analysisObject:
  "map fst (analysisObject r) =
     [''process'', ''documents_uploaded'', ''required_documents'', ''missing_documents'',
      ''issues_found'']"
  by (simp add: analysisObject_def)

lemma no_confidence_key:
  "map_of (analysisObject r) ''confidence_score'' = None \<and>
   map_of (analysisObject r) ''confidenceScore'' = None"
  by (simp add: analysisObject_def)

lemma not_carriesConfidenceScore: "\<not> carriesConfidenceScore (analysisObject r)"
  by (simp add: carriesConfidenceScore_def no_confidence_key)

subsection \<open>The checklist table and the example files\<close>

text \<open>The required checklist of a process is what \<open>displayChecklists\<close> shows for it.\<close>

lemma requiredChecklist_displayed:
  "p \<noteq> [] \<Longrightarrow>
     requiredChecklist p =
       concat (map (\<lambda>checklist. map item_name (filter required (documents checklist)))
                   (displayChecklists (Some p)))"
  by (simp add: requiredChecklist_def displayChecklists_def)

lemma requiredChecklist_incorporation:
  "requiredChecklist ''Company Incorporation'' =
     [''Articles of Association (AoA)'', ''Memorandum of Association (MoA)'',
      ''Incorporation Application Form'', ''UBO Declaration Form'',
      ''Register of Members and Directors'']"
  by (simp add: requiredChecklist_def ADGM_CHECKLISTS_def)

lemma distinct_incorporation_checklist:
  "distinct (requiredChecklist ''Company Incorporation'')"
  by (simp add: requiredChecklist_incorporation)

lemma filter_checklist_register:
  "filter (\<lambda>t. t \<notin> U) (requiredChecklist ''Company Incorporation'')
      = [''Register of Members and Directors'']
   \<longleftrightarrow> set (requiredChecklist ''Company Incorporation'') - U
      = {''Register of Members and Directors''}"
proof -
  have "set (requiredChecklist ''Company Incorporation'') - U
      = {y \<in> set (requiredChecklist ''Company Incorporation''). y \<notin> U}"
    by blast
  then show ?thesis
    using filter_eq_singleton_iff [OF distinct_incorporation_checklist] by simp
qed

lemma declaredType_docx: "declaredType (docx stem) = stem"
  by (simp add: declaredType_def docx_def endsWith_iff lower_simps)

subsection \<open>Reindexing\<close>

lemma sources_reindexCallback:
  "sources (reindexCallback clock s) =
     map (\<lambda>(i, source). source\<lparr>status := Indexed, lastUpdated := splitT0 (clock i)\<rparr>)
         (enumerate 0 (sources s))"
  by (simp add: reindexCallback_def)

lemma identityFields_update:
  "identityFields (source\<lparr>status := st, lastUpdated := d\<rparr>) = identityFields source"
  by (simp add: identityFields_def)

lemma map_identityFields_enumerate:
  "map identityFields
     (map (\<lambda>(i, source). source\<lparr>status := Indexed, lastUpdated := splitT0 (clock i)\<rparr>)
          (enumerate n xs))
   = map identityFields xs"
  by (induction xs arbitrary: n) (simp_all add: identityFields_update)

subsection \<open>Clamping and rounding\<close>

lemma clamp01_bounds: "0 \<le> clamp01 x \<and> clamp01 x \<le> 1"
  by (simp add: clamp01_def)

lemma clamp01_mono: "x \<le> y \<Longrightarrow> clamp01 x \<le> clamp01 y"
  by (auto simp: clamp01_def min_def max_def)

lemma roundTwoDecimals_mono: "x \<le> y \<Longrightarrow> roundTwoDecimals x \<le> roundTwoDecimals y"
proof -
  assume "x \<le> y"
  then have "x * 100 \<le> y * 100" by simp
  then have "round (x * 100) \<le> round (y * 100)" by (rule round_mono)
  then show ?thesis
    by (simp add: roundTwoDecimals_def divide_right_mono)
qed

lemma round_percent_bounds:
  assumes "0 \<le> x" "x \<le> (1::rat)"
  shows "0 \<le> round (x * 100) \<and> round (x * 100) \<le> 100"
proof -
  have "round (0::rat) \<le> round (x * 100)"
    using assms by (intro round_mono) simp
  moreover have "round (x * 100) \<le> round (100::rat)"
    using assms by (intro round_mono) simp
  ultimately show ?thesis by simp
qed

lemma score_percent:
  "score cfg inp = of_int (round (clamp01 (rawScore cfg inp) * 100)) / 100"
  by (simp add: score_def roundTwoDecimals_def)

lemma severityLoad_mono:
  assumes "h \<le> h'"
  shows "severityLoad cfg (inp\<lparr>highIssues := h\<rparr>) \<le> severityLoad cfg (inp\<lparr>highIssues := h'\<rparr>)"
proof -
  let ?cap = "capPerDocument cfg * of_nat (documentsUploaded inp)"
  show ?thesis
  proof (cases "?cap \<le> 0")
    case True
    then show ?thesis by (simp add: severityLoad_def)
  next
    case False
    then have pos: "0 < ?cap" by simp
    have "weightedIssueCount (inp\<lparr>highIssues := h\<rparr>) \<le> weightedIssueCount (inp\<lparr>highIssues := h'\<rparr>)"
      using assms by (simp add: weightedIssueCount_def)
    then have "(of_nat (weightedIssueCount (inp\<lparr>highIssues := h\<rparr>)) :: rat)
        \<le> of_nat (weightedIssueCount (inp\<lparr>highIssues := h'\<rparr>))"
      by simp
    then have "of_nat (weightedIssueCount (inp\<lparr>highIssues := h\<rparr>)) / ?cap
        \<le> of_nat (weightedIssueCount (inp\<lparr>highIssues := h'\<rparr>)) / ?cap"
      using pos by (simp add: divide_right_mono)
    then show ?thesis
      using False by (simp add: severityLoad_def min_le_iff_disj)
  qed
qed

lemma rawScore_antimono:
  assumes "0 \<le> severityWeight cfg" "h \<le> h'"
  shows "rawScore cfg (inp\<lparr>highIssues := h'\<rparr>) \<le> rawScore cfg (inp\<lparr>highIssues := h\<rparr>)"
proof -
  have "severityWeight cfg * (1 - severityLoad cfg (inp\<lparr>highIssues := h'\<rparr>))
      \<le> severityWeight cfg * (1 - severityLoad cfg (inp\<lparr>highIssues := h\<rparr>))"
    using assms(1) severityLoad_mono [OF assms(2), of cfg inp]
    by (intro mult_left_mono) simp_all
  then show ?thesis
    by (simp add: rawScore_def)
qed

text \<open>The modelled score lies in the unit interval and has at most two decimals.\<close>

lemma score_in_unit_interval:
  "0 \<le> score cfg inp \<and> score cfg inp \<le> 1 \<and>
   (\<exists>k::nat. k \<le> 100 \<and> score cfg inp = of_nat k / 100)"
proof -
  let ?k = "round (clamp01 (rawScore cfg inp) * 100)"
  have b: "0 \<le> ?k \<and> ?k \<le> 100"
    using clamp01_bounds [of "rawScore cfg inp"] by (intro round_percent_bounds) simp_all
  have s: "score cfg inp = of_int ?k / 100"
    by (rule score_percent)
  have "0 \<le> score cfg inp"
    unfolding s using b by simp
  moreover have "score cfg inp \<le> 1"
    unfolding s using b by simp
  moreover have "nat ?k \<le> 100"
    using b by linarith
  moreover have "score cfg inp = of_nat (nat ?k) / 100"
    unfolding s using b by simp
  ultimately show ?thesis by blast
qed

text \<open>Whatever the configuration, the score cannot fall with every further High issue:
  it only takes the values \<open>0, 1/100, \<dots>, 1\<close>.\<close>

lemma score_strict_decrease_impossible:
  "\<not> (\<forall>h. score cfg (inp\<lparr>highIssues := Suc h\<rparr>) < score cfg (inp\<lparr>highIssues := h\<rparr>))"
proof
  let ?k = "\<lambda>h. round (clamp01 (rawScore cfg (inp\<lparr>highIssues := h\<rparr>)) * 100)"
  assume strict: "\<forall>h. score cfg (inp\<lparr>highIssues := Suc h\<rparr>) < score cfg (inp\<lparr>highIssues := h\<rparr>)"
  have step: "?k (Suc h) < ?k h" for h
  proof -
    have "(of_int (?k (Suc h)) :: rat) / 100 < of_int (?k h) / 100"
      using strict by (simp add: score_percent)
    then have "(of_int (?k (Suc h)) :: rat) < of_int (?k h)"
      by simp
    then show ?thesis by simp
  qed
  have bound: "0 \<le> ?k h \<and> ?k h \<le> 100" for h
    using clamp01_bounds [of "rawScore cfg (inp\<lparr>highIssues := h\<rparr>)"]
    by (intro round_percent_bounds) simp_all
  have fall: "?k h \<le> ?k 0 - int h" for h
  proof (induction h)
    case 0
    show ?case by simp
  next
    case (Suc h)
    then show ?case using step [of h] by simp
  qed
  have "?k 101 \<le> ?k 0 - 101"
    using fall [of 101] by simp
  then show False
    using bound [of 0] bound [of 101] by simp
qed

section \<open>Checklist completeness of the report\<close>

text \<open>
  Claim C1, as stated: the report's \<open>missing_documents\<close> is the required checklist of the
  process minus the uploaded document types, in checklist order. It fails: after a single
  upload, the Articles of Association, the report lists only the register, while the
  checklist difference has four entries.
\<close>

theorem missing_differs_from_checklist_difference:
  "map_option missing_documents
     (analysis (runAnalysis (uploaderWith [docx ''Articles of Association (AoA)''])))
     = Some [''Register of Members and Directors''] \<and>
   checklistMinusUploaded ''Company Incorporation''
     (declaredType ` set (files (uploaderWith [docx ''Articles of Association (AoA)''])))
     = [''Memorandum of Association (MoA)'', ''Incorporation Application Form'',
        ''UBO Declaration Form'', ''Register of Members and Directors'']"
  by (simp add: runAnalysis_nonempty uploaderWith_def mockAnalysis_def
      checklistMinusUploaded_def requiredChecklist_incorporation declaredType_docx)

text \<open>
  Claim C1, amended: for every non-empty upload the report's process is Company
  Incorporation, its \<open>required_documents\<close> is the length of that checklist, and its
  \<open>missing_documents\<close> is the register alone when fewer than five files were uploaded and
  empty otherwise, whatever the types of the documents. This is the checklist minus the
  uploaded types exactly when the register is the only checklist entry without an uploaded
  document (fewer than five files) or every checklist entry has one (five files or more).
\<close>

theorem missing_documents_by_count:
  "files s \<noteq> [] \<Longrightarrow>
     (\<exists>r. analysis (runAnalysis s) = Some r \<and>
          process r = ''Company Incorporation'' \<and>
          required_documents r = length (requiredChecklist (process r)) \<and>
          missing_documents r =
            (if length (files s) < 5 then [''Register of Members and Directors''] else []) \<and>
          (missing_documents r = checklistMinusUploaded (process r) (typeOf ` set (files s))
           \<longleftrightarrow>
           (if length (files s) < 5
            then set (requiredChecklist (process r)) - typeOf ` set (files s)
                   = {''Register of Members and Directors''}
            else set (requiredChecklist (process r)) \<subseteq> typeOf ` set (files s))))"
proof -
  assume ne: "files s \<noteq> []"
  let ?r = "mockAnalysis (files s)"
  let ?U = "typeOf ` set (files s)"
  have a: "analysis (runAnalysis s) = Some ?r"
    using ne by (simp add: runAnalysis_nonempty)
  have p: "process ?r = ''Company Incorporation''"
    by (simp add: mockAnalysis_def)
  have n: "required_documents ?r = length (requiredChecklist (process ?r))"
    unfolding p requiredChecklist_incorporation by (simp add: mockAnalysis_def)
  have m: "missing_documents ?r =
      (if length (files s) < 5 then [''Register of Members and Directors''] else [])"
    by (simp add: mockAnalysis_def)
  have e: "[] = filter (\<lambda>t. t \<notin> ?U) (requiredChecklist ''Company Incorporation'')
      \<longleftrightarrow> set (requiredChecklist ''Company Incorporation'') \<subseteq> ?U"
    by (auto simp: filter_empty_conv eq_commute [of "[]"])
  have c: "missing_documents ?r = checklistMinusUploaded (process ?r) ?U \<longleftrightarrow>
      (if length (files s) < 5
       then set (requiredChecklist (process ?r)) - ?U = {''Register of Members and Directors''}
       else set (requiredChecklist (process ?r)) \<subseteq> ?U)"
    unfolding p m checklistMinusUploaded_def
    using filter_checklist_register [of ?U] e
    by (cases "length (files s) < 5") (simp_all add: eq_commute)
  show ?thesis
    using a p n m c by blast
qed

theorem missing_documents_by_count_witness:
  "files (uploaderWith fourIncorporationFiles) \<noteq> [] \<and>
   (\<exists>r. analysis (runAnalysis (uploaderWith fourIncorporationFiles)) = Some r \<and>
        missing_documents r = [''Register of Members and Directors''] \<and>
        missing_documents r =
          checklistMinusUploaded (process r) (declaredType ` set fourIncorporationFiles))"
proof -
  have ne: "files (uploaderWith fourIncorporationFiles) \<noteq> []"
    by (simp add: uploaderWith_def fourIncorporationFiles_def)
  have f: "files (uploaderWith fourIncorporationFiles) = fourIncorporationFiles"
    by (simp add: uploaderWith_def)
  have len: "length fourIncorporationFiles < 5"
    by (simp add: fourIncorporationFiles_def)
  have d: "set (requiredChecklist ''Company Incorporation'')
             - declaredType ` set fourIncorporationFiles
           = {''Register of Members and Directors''}"
    by (simp add: requiredChecklist_incorporation fourIncorporationFiles_def declaredType_docx
        insert_Diff_if)
  from missing_documents_by_count [OF ne, of declaredType]
  obtain r where r: "analysis (runAnalysis (uploaderWith fourIncorporationFiles)) = Some r"
      "process r = ''Company Incorporation''"
      "missing_documents r =
         (if length fourIncorporationFiles < 5 then [''Register of Members and Directors''] else [])"
      "missing_documents r
         = checklistMinusUploaded (process r) (declaredType ` set fourIncorporationFiles)
       \<longleftrightarrow>
       (if length fourIncorporationFiles < 5
        then set (requiredChecklist (process r)) - declaredType ` set fourIncorporationFiles
               = {''Register of Members and Directors''}
        else set (requiredChecklist (process r)) \<subseteq> declaredType ` set fourIncorporationFiles)"
    unfolding f by blast
  have "missing_documents r = [''Register of Members and Directors'']"
    using r(3) len by simp
  moreover have "missing_documents r
         = checklistMinusUploaded (process r) (declaredType ` set fourIncorporationFiles)"
    using r(4) len d unfolding r(2) by simp
  ultimately show ?thesis
    using ne r(1) by blast
qed

text \<open>
  Claim C2: for a batch of exactly four uploaded documents the analysis stores and
  delivers a report with \<open>documents_uploaded = 4\<close>, \<open>required_documents = 5\<close> and
  \<open>missing_documents\<close> the register alone.
\<close>

theorem analyze_four_of_five:
  "length (files s) = 4 \<Longrightarrow>
     (\<exists>r. analysis (runAnalysis s) = Some r \<and>
          completed (runAnalysis s) = completed s @ [r] \<and>
          process r = ''Company Incorporation'' \<and>
          documents_uploaded r = 4 \<and>
          required_documents r = 5 \<and>
          missing_documents r = [''Register of Members and Directors''])"
proof -
  assume len: "length (files s) = 4"
  then have "files s \<noteq> []" by auto
  then show ?thesis
    using len by (simp add: runAnalysis_nonempty mockAnalysis_def)
qed

theorem analyze_four_of_five_witness:
  "length (files (uploaderWith fourIncorporationFiles)) = 4 \<and>
   (\<exists>r. analysis (runAnalysis (uploaderWith fourIncorporationFiles)) = Some r \<and>
        completed (runAnalysis (uploaderWith fourIncorporationFiles)) = [r] \<and>
        process r = ''Company Incorporation'' \<and>
        documents_uploaded r = 4 \<and>
        required_documents r = 5 \<and>
        missing_documents r = [''Register of Members and Directors''])"
proof -
  have len: "length (files (uploaderWith fourIncorporationFiles)) = 4"
    by (simp add: uploaderWith_def fourIncorporationFiles_def)
  show ?thesis
    using len analyze_four_of_five [OF len] by (simp add: uploaderWith_def)
qed

text \<open>
  Claim C3, as stated: \<open>missing_documents\<close> never contains a type present in the uploaded
  set. It fails: when the register itself is the only upload, the report still lists it as
  missing.
\<close>

theorem missing_lists_uploaded_type:
  "''Register of Members and Directors''
     \<in> declaredType ` set (files (uploaderWith [docx ''Register of Members and Directors''])) \<and>
   map_option missing_documents
     (analysis (runAnalysis (uploaderWith [docx ''Register of Members and Directors''])))
     = Some [''Register of Members and Directors'']"
  by (simp add: runAnalysis_nonempty uploaderWith_def mockAnalysis_def declaredType_docx)

text \<open>
  Claim C3, amended: the only uploaded type that \<open>missing_documents\<close> can contain is the
  register, and only when fewer than five files were uploaded; when five or more files were
  uploaded, or no uploaded document is the register, \<open>missing_documents\<close> contains no
  uploaded type.
\<close>

theorem missing_uploaded_only_register:
  "files s \<noteq> [] \<Longrightarrow>
     (\<exists>r. analysis (runAnalysis s) = Some r \<and>
          (\<forall>t\<in>set (missing_documents r).
             t \<in> typeOf ` set (files s) \<longrightarrow>
               t = ''Register of Members and Directors'' \<and> length (files s) < 5) \<and>
          (5 \<le> length (files s) \<or>
           ''Register of Members and Directors'' \<notin> typeOf ` set (files s) \<longrightarrow>
             set (missing_documents r) \<inter> typeOf ` set (files s) = {}))"
proof -
  assume ne: "files s \<noteq> []"
  let ?r = "mockAnalysis (files s)"
  let ?U = "typeOf ` set (files s)"
  have a: "analysis (runAnalysis s) = Some ?r"
    using ne by (simp add: runAnalysis_nonempty)
  have m: "set (missing_documents ?r) =
      (if length (files s) < 5 then {''Register of Members and Directors''} else {})"
    by (simp add: mockAnalysis_def)
  have b: "\<forall>t\<in>set (missing_documents ?r).
             t \<in> ?U \<longrightarrow> t = ''Register of Members and Directors'' \<and> length (files s) < 5"
    unfolding m by (simp split: if_splits)
  have c: "5 \<le> length (files s) \<or> ''Register of Members and Directors'' \<notin> ?U \<longrightarrow>
             set (missing_documents ?r) \<inter> ?U = {}"
    unfolding m by (simp split: if_splits)
  show ?thesis
    using a b c by blast
qed

theorem missing_uploaded_only_register_witness:
  "files (uploaderWith fourIncorporationFiles) \<noteq> [] \<and>
   (\<exists>r. analysis (runAnalysis (uploaderWith fourIncorporationFiles)) = Some r \<and>
        set (missing_documents r) \<inter> declaredType ` set fourIncorporationFiles = {})"
proof -
  have ne: "files (uploaderWith fourIncorporationFiles) \<noteq> []"
    by (simp add: uploaderWith_def fourIncorporationFiles_def)
  have f: "files (uploaderWith fourIncorporationFiles) = fourIncorporationFiles"
    by (simp add: uploaderWith_def)
  have absent: "''Register of Members and Directors'' \<notin> declaredType ` set fourIncorporationFiles"
    by (simp add: fourIncorporationFiles_def declaredType_docx)
  show ?thesis
    using ne absent missing_uploaded_only_register [OF ne, of declaredType]
    unfolding f by blast
qed

section \<open>Determinism and the empty batch\<close>



text \<open>
  Claim C7: with an empty file list the analysis returns at once: no timer is scheduled,
  the whole state, the stored report included, stays as it was, and the completion callback
  is not called.
\<close>

theorem analyze_empty_aborts:
  "files s = [] \<Longrightarrow>
     analyzeDocuments s = (s, None) \<and>
     analysis (runAnalysis s) = analysis s \<and>
     completed (runAnalysis s) = completed s \<and>
     runAnalysis s = s"
  by (simp add: runAnalysis_def analyzeDocuments_def)

theorem analyze_empty_aborts_witness:
  "files (uploaderWith []) = [] \<and>
   analyzeDocuments (uploaderWith []) = (uploaderWith [], None) \<and>
   analysis (runAnalysis (uploaderWith [])) = None \<and>
   completed (runAnalysis (uploaderWith [])) = []"
proof -
  have e: "files (uploaderWith []) = []"
    by (simp add: uploaderWith_def)
  show ?thesis
    using e analyze_empty_aborts [OF e] by (simp add: uploaderWith_def)
qed

section \<open>File selection\<close>

text \<open>
  Claim C8: file selection is all-or-nothing. If some selected name does not end in
  \<open>.docx\<close> (ignoring case) the stored file list stays as it was; otherwise it becomes
  exactly the selected files in their order. A \<^verbatim>\<open>null\<close> selection counts as the empty
  one.
\<close>

theorem handleFileUpload_all_or_nothing:
  "((\<exists>f\<in>set selected. \<not> endsInDocx (name f)) \<longrightarrow>
      files (handleFileUpload (Some selected) s) = files s) \<and>
   ((\<forall>f\<in>set selected. endsInDocx (name f)) \<longrightarrow>
      files (handleFileUpload (Some selected) s) = selected) \<and>
   files (handleFileUpload None s) = []"
proof -
  let ?P = "\<lambda>file. endsWith (toLowerCase (name file)) ''.docx''"
  have len: "length (filter ?P selected) = length selected \<longleftrightarrow> (\<forall>f\<in>set selected. endsInDocx (name f))"
    by (simp add: filter_docx_all endsWith_lower_docx)
  have all: "(\<forall>f\<in>set selected. endsInDocx (name f)) \<Longrightarrow> filter ?P selected = selected"
    by (simp add: endsWith_lower_docx)
  show ?thesis
    using len all by (auto simp: handleFileUpload_def Let_def)
qed

theorem handleFileUpload_all_or_nothing_witness:
  "files (handleFileUpload (Some [docx ''Articles'', \<lparr>name = ''notes.txt'', size_bytes = 10\<rparr>])
            (uploaderWith fourIncorporationFiles)) = fourIncorporationFiles \<and>
   files (handleFileUpload (Some [\<lparr>name = ''Articles.DOCX'', size_bytes = 10\<rparr>, docx ''Memorandum''])
            (uploaderWith fourIncorporationFiles))
     = [\<lparr>name = ''Articles.DOCX'', size_bytes = 10\<rparr>, docx ''Memorandum'']"
proof -
  have bad: "\<not> endsInDocx ''notes.txt''"
    unfolding endsWith_lower_docx [symmetric] by (simp add: endsWith_def lower_simps)
  have good: "endsInDocx ''Articles.DOCX''" "endsInDocx (name (docx ''Memorandum''))"
    unfolding endsWith_lower_docx [symmetric] by (simp_all add: endsWith_def lower_simps docx_def)
  have h1: "\<exists>f\<in>set [docx ''Articles'', \<lparr>name = ''notes.txt'', size_bytes = 10\<rparr>].
              \<not> endsInDocx (name f)"
    using bad by simp
  have h2: "\<forall>f\<in>set [\<lparr>name = ''Articles.DOCX'', size_bytes = 10\<rparr>, docx ''Memorandum''].
              endsInDocx (name f)"
    using good by simp
  show ?thesis
    using h1 h2
      handleFileUpload_all_or_nothing
        [of "[docx ''Articles'', \<lparr>name = ''notes.txt'', size_bytes = 10\<rparr>]"
            "uploaderWith fourIncorporationFiles"]
      handleFileUpload_all_or_nothing
        [of "[\<lparr>name = ''Articles.DOCX'', size_bytes = 10\<rparr>, docx ''Memorandum'']"
            "uploaderWith fourIncorporationFiles"]
    by (simp add: uploaderWith_def)
qed

section \<open>Rule filter\<close>

text \<open>
  Claim C9: the displayed rules are exactly the rules of the table whose category is the
  selected one (or the selection is \<open>All\<close>) and whose name or description contains the
  search term ignoring case, in table order; with \<open>All\<close> and the empty term all six rules
  are displayed.
\<close>

theorem filteredRules_spec:
  "filteredRules selectedCategory searchTerm =
     filter (\<lambda>r. (selectedCategory = ''All'' \<or> category r = selectedCategory) \<and>
                 (containsIgnoringCase (rule r) searchTerm \<or>
                  containsIgnoringCase (description r) searchTerm))
       ADGM_COMPLIANCE_RULES \<and>
   filteredRules ''All'' [] = ADGM_COMPLIANCE_RULES \<and>
   length ADGM_COMPLIANCE_RULES = 6"
proof -
  have a: "includes_str x [] = True" for x by (cases x) simp_all
  have "filteredRules ''All'' [] = ADGM_COMPLIANCE_RULES"
    by (simp add: filteredRules_def toLowerCase_def a)
  moreover have "length ADGM_COMPLIANCE_RULES = 6"
    by (simp add: ADGM_COMPLIANCE_RULES_def)
  ultimately show ?thesis
    by (simp add: filteredRules_def includes_lower_iff)
qed

theorem filteredRules_spec_witness:
  "length (filteredRules ''All'' '''') = 6 \<and>
   map rule_id (filteredRules ''AML/CFT'' ''ubo'') = [''COMP-003'']"
proof -
  have "map rule_id (filteredRules ''AML/CFT'' ''ubo'') = [''COMP-003'']"
    by code_simp
  moreover from filteredRules_spec [of "''All''" "''''"]
  have "filteredRules ''All'' '''' = ADGM_COMPLIANCE_RULES" "length ADGM_COMPLIANCE_RULES = 6"
    by blast+
  ultimately show ?thesis by simp
qed

section \<open>Reindexing the knowledge sources\<close>

text \<open>
  Claim C10: a completed reindexing leaves the id, title, type, url and description of
  every source as they were, keeps the sources and their order, and leaves every source
  with status \<open>Indexed\<close>; the search query and the selected type are untouched.
\<close>

theorem reindex_changes_only_status_and_date:
  "map identityFields (sources (runReindex clock s)) = map identityFields (sources s) \<and>
   length (sources (runReindex clock s)) = length (sources s) \<and>
   (\<forall>source\<in>set (sources (runReindex clock s)). status source = Indexed) \<and>
   searchQuery (runReindex clock s) = searchQuery s \<and>
   selectedType (runReindex clock s) = selectedType s"
proof -
  have src: "sources (runReindex clock s) =
     map (\<lambda>(i, source). source\<lparr>status := Indexed, lastUpdated := splitT0 (clock i)\<rparr>)
         (enumerate 0 (sources s))"
    by (simp add: runReindex_def handleReindex_def sources_reindexCallback)
  have "map identityFields (sources (runReindex clock s)) = map identityFields (sources s)"
    unfolding src by (rule map_identityFields_enumerate)
  moreover have "length (sources (runReindex clock s)) = length (sources s)"
    unfolding src by simp
  moreover have "\<forall>source\<in>set (sources (runReindex clock s)). status source = Indexed"
    unfolding src by (simp add: case_prod_beta)
  moreover have "searchQuery (runReindex clock s) = searchQuery s"
    "selectedType (runReindex clock s) = selectedType s"
    by (simp_all add: runReindex_def handleReindex_def reindexCallback_def)
  ultimately show ?thesis by blast
qed

theorem reindex_changes_only_status_and_date_witness:
  "map status (sources initialRAGSystem) = [Indexed, Indexed, Indexed, Active, Indexed] \<and>
   status (sources (runReindex (\<lambda>i. ''2026-11-01T09:30:00.000Z'') initialRAGSystem) ! 3) = Indexed \<and>
   map source_id (sources (runReindex (\<lambda>i. ''2026-11-01T09:30:00.000Z'') initialRAGSystem))
     = map source_id (sources initialRAGSystem)"
proof -
  let ?s' = "runReindex (\<lambda>i. ''2026-11-01T09:30:00.000Z'') initialRAGSystem"
  note t = reindex_changes_only_status_and_date
             [of "\<lambda>i. ''2026-11-01T09:30:00.000Z''" initialRAGSystem]
  have len: "length (sources initialRAGSystem) = 5"
    by (simp add: initialRAGSystem_def ADGM_KNOWLEDGE_SOURCES_def)
  have "3 < length (sources ?s')"
    using t len by simp
  then have "sources ?s' ! 3 \<in> set (sources ?s')"
    by (rule nth_mem)
  then have a: "status (sources ?s' ! 3) = Indexed"
    using t by blast
  have "map identityFields (sources ?s') = map identityFields (sources initialRAGSystem)"
    using t by blast
  then have "map fst (map identityFields (sources ?s'))
      = map fst (map identityFields (sources initialRAGSystem))"
    by simp
  then have b: "map source_id (sources ?s') = map source_id (sources initialRAGSystem)"
    by (simp add: identityFields_def comp_def)
  have c: "map status (sources initialRAGSystem) = [Indexed, Indexed, Indexed, Active, Indexed]"
    by (simp add: initialRAGSystem_def ADGM_KNOWLEDGE_SOURCES_def)
  show ?thesis
    using a b c by blast
qed

section \<open>Confidence score\<close>

text \<open>
  Claim C4, as stated: with every other input fixed, the confidence score strictly
  decreases as the number of High-severity issues grows. It fails for the scorer as the
  specification describes it: once the weighted issue count has reached the cap, a further
  High issue leaves the score where it was. (By \<open>score_strict_decrease_impossible\<close> no
  choice of weights and cap avoids this.)
\<close>

theorem score_not_strictly_decreasing:
  "score exampleConfig (exampleInput 8) = 13 / 25 \<and>
   score exampleConfig (exampleInput 9) = 13 / 25 \<and>
   \<not> score exampleConfig (exampleInput 9) < score exampleConfig (exampleInput 8)"
proof -
  have "score exampleConfig (exampleInput 8) = 13 / 25"
    by code_simp
  moreover have "score exampleConfig (exampleInput 9) = 13 / 25"
    by code_simp
  ultimately show ?thesis by simp
qed

text \<open>
  Claim C4, amended: with every other input fixed and a severity weight that is not
  negative, the confidence score is monotonically non-increasing in the number of
  High-severity issues.
\<close>

theorem score_nonincreasing_in_high:
  "0 \<le> severityWeight cfg \<Longrightarrow> h \<le> h' \<Longrightarrow>
     score cfg (inp\<lparr>highIssues := h'\<rparr>) \<le> score cfg (inp\<lparr>highIssues := h\<rparr>)"
  unfolding score_def
  by (intro roundTwoDecimals_mono clamp01_mono rawScore_antimono)

theorem score_nonincreasing_in_high_witness:
  "0 \<le> severityWeight exampleConfig \<and> (2::nat) \<le> 3 \<and>
   score exampleConfig (exampleInput 3) \<le> score exampleConfig (exampleInput 2) \<and>
   score exampleConfig (exampleInput 2) = 79 / 100"
proof -
  have w: "0 \<le> severityWeight exampleConfig"
    by (simp add: exampleConfig_def)
  have le: "(2::nat) \<le> 3" by simp
  have u: "(exampleInput 0)\<lparr>highIssues := h\<rparr> = exampleInput h" for h
    by (simp add: exampleInput_def)
  have v: "score exampleConfig (exampleInput 2) = 79 / 100"
    by code_simp
  show ?thesis
    using w le v score_nonincreasing_in_high [OF w le, of "exampleInput 0"]
    unfolding u by simp
qed

section \<open>The properties of the report\<close>

text \<open>
  Claim C5, as stated: every produced report carries a confidence score in the unit
  interval, rounded to two decimals. It fails: the report produced for four uploaded files
  has the five properties of the interface and no confidence score.
\<close>

theorem report_without_confidence_score:
  "map_option (map fst \<circ> analysisObject)
     (analysis (runAnalysis (uploaderWith fourIncorporationFiles)))
     = Some [''process'', ''documents_uploaded'', ''required_documents'',
             ''missing_documents'', ''issues_found''] \<and>
   map_option (carriesConfidenceScore \<circ> analysisObject)
     (analysis (runAnalysis (uploaderWith fourIncorporationFiles)))
     = Some False"
proof -
  have "files (uploaderWith fourIncorporationFiles) \<noteq> []"
    by (simp add: uploaderWith_def fourIncorporationFiles_def)
  then have "analysis (runAnalysis (uploaderWith fourIncorporationFiles))
      = Some (mockAnalysis (files (uploaderWith fourIncorporationFiles)))"
    by (simp add: runAnalysis_nonempty)
  then show ?thesis
    by (simp add: keys_analysisObject not_carriesConfidenceScore)
qed

text \<open>
  Claim C5, amended: every produced report, stored and handed to the completion callback,
  has exactly the properties \<open>process\<close>, \<open>documents_uploaded\<close>, \<open>required_documents\<close>,
  \<open>missing_documents\<close> and \<open>issues_found\<close>, its two numbers being the number of uploaded
  files and 5; it carries no confidence score.
\<close>

theorem report_fields:
  "files s \<noteq> [] \<Longrightarrow>
     (\<exists>r. analysis (runAnalysis s) = Some r \<and>
          completed (runAnalysis s) = completed s @ [r] \<and>
          map fst (analysisObject r) =
            [''process'', ''documents_uploaded'', ''required_documents'',
             ''missing_documents'', ''issues_found''] \<and>
          map_of (analysisObject r) ''documents_uploaded''
            = Some (JsNumber (of_nat (length (files s)))) \<and>
          map_of (analysisObject r) ''required_documents'' = Some (JsNumber 5) \<and>
          \<not> carriesConfidenceScore (analysisObject r))"
proof -
  assume ne: "files s \<noteq> []"
  let ?r = "mockAnalysis (files s)"
  have a: "analysis (runAnalysis s) = Some ?r" "completed (runAnalysis s) = completed s @ [?r]"
    using ne by (simp_all add: runAnalysis_nonempty)
  have n: "map_of (analysisObject ?r) ''documents_uploaded''
             = Some (JsNumber (of_nat (length (files s))))"
    "map_of (analysisObject ?r) ''required_documents'' = Some (JsNumber 5)"
    by (simp_all add: analysisObject_def mockAnalysis_def)
  show ?thesis
    by (intro exI [of _ ?r] conjI a n keys_analysisObject not_carriesConfidenceScore)
qed

theorem report_fields_witness:
  "files (uploaderWith fiveIncorporationFiles) \<noteq> [] \<and>
   (\<exists>r. analysis (runAnalysis (uploaderWith fiveIncorporationFiles)) = Some r \<and>
        completed (runAnalysis (uploaderWith fiveIncorporationFiles)) = [r] \<and>
        map_of (analysisObject r) ''documents_uploaded'' = Some (JsNumber 5) \<and>
        map_of (analysisObject r) ''confidence_score'' = None \<and>
        \<not> carriesConfidenceScore (analysisObject r))"
proof -
  have ne: "files (uploaderWith fiveIncorporationFiles) \<noteq> []"
    by (simp add: uploaderWith_def fiveIncorporationFiles_def)
  have len: "length (files (uploaderWith fiveIncorporationFiles)) = 5"
    by (simp add: uploaderWith_def fiveIncorporationFiles_def fourIncorporationFiles_def)
  have c: "completed (uploaderWith fiveIncorporationFiles) = []"
    by (simp add: uploaderWith_def)
  let ?s = "uploaderWith fiveIncorporationFiles"
  from report_fields [OF ne]
  obtain r where r:
    "analysis (runAnalysis ?s) = Some r \<and>
     completed (runAnalysis ?s) = completed ?s @ [r] \<and>
     map fst (analysisObject r) =
       [''process'', ''documents_uploaded'', ''required_documents'',
        ''missing_documents'', ''issues_found''] \<and>
     map_of (analysisObject r) ''documents_uploaded''
       = Some (JsNumber (of_nat (length (files ?s)))) \<and>
     map_of (analysisObject r) ''required_documents'' = Some (JsNumber 5) \<and>
     \<not> carriesConfidenceScore (analysisObject r)" ..
  note r1 = r [THEN conjunct1]
  note r2 = r [THEN conjunct2, THEN conjunct1]
  note r4 = r [THEN conjunct2, THEN conjunct2, THEN conjunct2, THEN conjunct1]
  note r6 = r [THEN conjunct2, THEN conjunct2, THEN conjunct2, THEN conjunct2, THEN conjunct2]
  have k: "map_of (analysisObject r) ''confidence_score'' = None"
    by (rule no_confidence_key [THEN conjunct1])
  have d: "map_of (analysisObject r) ''documents_uploaded'' = Some (JsNumber 5)"
    unfolding r4 len by simp
  have e: "completed (runAnalysis ?s) = [r]"
    unfolding r2 c by simp
  show ?thesis
    by (intro conjI exI [of _ r] ne r1 e d k r6)
qed

end
